theory Spec2Isabelle
  imports Main "HOL-Library.Sublist"
begin

section \<open>XPO JSON to RDF: a shallow embedding of \<open>xpoJson2rdf.py\<close>\<close>

subsection \<open>Data: parsed JSON, RDF terms, diagnostics\<close>

text \<open>
  What \<open>json.load\<close> returns. A dict keeps insertion order, so an object is an
  association list (its keys pairwise distinct in any value that Python can build;
  lookups read the first entry of a key). No operation of \<open>convert_generic\<close> does
  arithmetic on a number: an int and a float (mantissa and binary exponent) are
  treated alike everywhere.
\<close>

datatype json =
    JNull
  | JBool bool
  | JInt int
  | JFloat int int
  | JStr string
  | JList "json list"
  | JObj "(string \<times> json) list"

text \<open>The exceptions that the code of \<open>convert_generic\<close> can raise.\<close>

datatype error = KeyError | TypeError | AttributeError | NameError | UnboundLocalError

text \<open>
  The rdflib terms that the code builds: \<open>URIRef(s)\<close>, \<open>BNode(s)\<close> and
  \<open>Literal(v)\<close> of a Python value \<open>v\<close> (a constructor that accepts every JSON
  value).
\<close>

datatype rdf_term = URIRef string | BNode string | Literal json

type_synonym triple = "rdf_term \<times> rdf_term \<times> rdf_term"

definition t_subj :: "triple \<Rightarrow> rdf_term" where
  "t_subj t = fst t"

definition t_pred :: "triple \<Rightarrow> rdf_term" where
  "t_pred t = fst (snd t)"

definition t_obj :: "triple \<Rightarrow> rdf_term" where
  "t_obj t = snd (snd t)"

text \<open>
  A printed line is kept as the pieces of its f-string: the literal text and the
  strings formatted into it (\<open>Txt\<close>), a formatted JSON value (\<open>Val\<close>), a formatted
  rdflib term (\<open>Trm\<close>).
\<close>

datatype piece = Txt string | Val json | Trm rdf_term

type_synonym notice = "piece list"

text \<open>
  The state that \<open>convert_generic\<close> reads and writes: the module-level \<open>GRAPH\<close>
  as the sequence of its \<open>add\<close> calls (the triple set is \<open>set (graph st)\<close>), the
  lines printed, the number of calls of \<open>shortuuid.uuid()\<close> made so far, and the
  function's local variables \<open>ldc_arg_name\<close>, \<open>ldc_arg_value\<close>, which are read
  after the loop that binds them (\<open>None\<close>: not bound yet).
\<close>

record state =
  graph :: "triple list"
  stdout :: "notice list"
  uuid_calls :: nat
  ldc_arg_item :: "(string \<times> json) option"

type_synonym 'a action = "state \<Rightarrow> (error + 'a) \<times> state"

subsection \<open>Python operations on JSON values\<close>

text \<open>\<open>v[k]\<close> for a string key \<open>k\<close>.\<close>

fun py_getitem :: "json \<Rightarrow> string \<Rightarrow> error + json" where
  "py_getitem (JObj kvs) k = (case map_of kvs k of None \<Rightarrow> Inl KeyError | Some x \<Rightarrow> Inr x)"
| "py_getitem _ k = Inl TypeError"

text \<open>\<open>s + v\<close> for a string \<open>s\<close> (\<open>Namespace\<close> is a subclass of \<open>str\<close>).\<close>

fun py_str_add :: "string \<Rightarrow> json \<Rightarrow> error + string" where
  "py_str_add s (JStr t) = Inr (s @ t)"
| "py_str_add s _ = Inl TypeError"

text \<open>The elements that \<open>for x in v\<close> runs through.\<close>

fun py_iter :: "json \<Rightarrow> error + json list" where
  "py_iter (JList xs) = Inr xs"
| "py_iter (JStr s) = Inr (map (\<lambda>c. JStr [c]) s)"
| "py_iter (JObj kvs) = Inr (map (\<lambda>kv. JStr (fst kv)) kvs)"
| "py_iter _ = Inl TypeError"

text \<open>\<open>v.items()\<close>.\<close>

fun py_items :: "json \<Rightarrow> error + (string \<times> json) list" where
  "py_items (JObj kvs) = Inr kvs"
| "py_items _ = Inl AttributeError"

text \<open>\<open>isinstance(v, list)\<close>.\<close>

fun isinstance_list :: "json \<Rightarrow> bool" where
  "isinstance_list (JList xs) = True"
| "isinstance_list _ = False"

text \<open>\<open>k in v\<close> for a string \<open>k\<close>.\<close>

fun py_contains :: "string \<Rightarrow> json \<Rightarrow> error + bool" where
  "py_contains k (JObj kvs) = Inr (k \<in> set (map fst kvs))"
| "py_contains k (JList xs) = Inr (JStr k \<in> set xs)"
| "py_contains k (JStr s) = Inr (sublist k s)"
| "py_contains k _ = Inl TypeError"

subsection \<open>Sequencing of statements\<close>

definition bindM :: "'a action \<Rightarrow> ('a \<Rightarrow> 'b action) \<Rightarrow> 'b action" where
  "bindM m f st = (case m st of (Inl e, st') \<Rightarrow> (Inl e, st') | (Inr x, st') \<Rightarrow> f x st')"

definition thenM :: "unit action \<Rightarrow> 'b action \<Rightarrow> 'b action" where
  "thenM m k = bindM m (\<lambda>_. k)"

definition expr :: "error + 'a \<Rightarrow> 'a action" where
  "expr r st = (r, st)"

definition skip :: "unit action" where
  "skip = expr (Inr ())"

text \<open>\<open>for x in xs: body\<close>, left at the first exception.\<close>

fun for_each :: "('a \<Rightarrow> unit action) \<Rightarrow> 'a list \<Rightarrow> unit action" where
  "for_each body [] st = (Inr (), st)"
| "for_each body (x # xs) st =
     (case body x st of (Inl e, st') \<Rightarrow> (Inl e, st') | (Inr _, st') \<Rightarrow> for_each body xs st')"

subsection \<open>The graph sink, the printer and \<open>bnode\<close>\<close>

definition graph_add :: "triple \<Rightarrow> unit action" where
  "graph_add t st = (Inr (), st\<lparr>graph := graph st @ [t]\<rparr>)"

definition print_notice :: "notice \<Rightarrow> unit action" where
  "print_notice n st = (Inr (), st\<lparr>stdout := stdout st @ [n]\<rparr>)"

text \<open>
  \<open>bnode(prefix)\<close>, with \<open>pfx\<close> for the source's \<open>prefix\<close>; \<open>gen i\<close> is what
  \<open>shortuuid.uuid()[:5]\<close> gives at its \<open>i\<close>-th call.
\<close>

definition bnode :: "(nat \<Rightarrow> string) \<Rightarrow> string \<Rightarrow> rdf_term action" where
  "bnode gen pfx st =
     (Inr (if pfx \<noteq> [] then BNode (pfx @ ''_'' @ gen (uuid_calls st))
           else BNode (gen (uuid_calls st))),
      st\<lparr>uuid_calls := Suc (uuid_calls st)\<rparr>)"

text \<open>\<open>DWD.name\<close>: the attribute of a \<open>Namespace\<close>, \<open>URIRef(DWD + name)\<close>.\<close>

definition ns :: "string \<Rightarrow> string \<Rightarrow> rdf_term" where
  "ns DWD name = URIRef (DWD @ name)"

definition WD :: string where
  "WD = ''http://www.wikidata.org/wiki/''"

definition XPO :: string where
  "XPO = ''http://purl.org/xpo/''"

subsection \<open>\<open>convert_generic\<close>, branch by branch\<close>

text \<open>The property names of the first branch (lines 83 to 85).\<close>

definition string_properties :: "string list" where
  "string_properties =
     [''type'', ''comment'', ''curated_by'', ''description'', ''wd_node'', ''name'',
      ''wd_description'', ''template'', ''template_curation'', ''pb_roleset'']"

text \<open>The body of the loop over \<open>overlay_parents\<close> (lines 91 to 95).\<close>

definition overlay_parent :: "(nat \<Rightarrow> string) \<Rightarrow> string \<Rightarrow> rdf_term \<Rightarrow> json \<Rightarrow> unit action" where
  "overlay_parent gen DWD node v =
     bindM (bnode gen ''OVERLAY'') (\<lambda>overlay_node.
     thenM (graph_add (node, ns DWD ''overlay'', overlay_node))
    (bindM (expr (py_getitem v ''wd_node'')) (\<lambda>w.
     bindM (expr (py_str_add WD w)) (\<lambda>u.
     thenM (graph_add (overlay_node, ns DWD ''overlay_parent'', URIRef u))
    (bindM (expr (py_getitem v ''name'')) (\<lambda>n.
     graph_add (overlay_node, ns DWD ''overlay_parent_name'', Literal n)))))))"

text \<open>The body of the loop over \<open>similar_nodes\<close> (lines 101 to 106).\<close>

definition similar_node :: "(nat \<Rightarrow> string) \<Rightarrow> string \<Rightarrow> rdf_term \<Rightarrow> json \<Rightarrow> unit action" where
  "similar_node gen DWD node v =
     bindM (bnode gen ''SIMILAR'') (\<lambda>similar_node.
     thenM (graph_add (node, ns DWD ''similarNode'', similar_node))
    (bindM (expr (py_getitem v ''wd_node'')) (\<lambda>w.
     bindM (expr (py_str_add WD w)) (\<lambda>u.
     thenM (graph_add (similar_node, ns DWD ''wd_node'', URIRef u))
    (bindM (expr (py_getitem v ''name'')) (\<lambda>n.
     thenM (graph_add (similar_node, ns DWD ''name'', Literal n))
    (bindM (expr (py_getitem v ''similarity_type'')) (\<lambda>s.
     bindM (expr (py_str_add DWD s)) (\<lambda>u'.
     graph_add (similar_node, ns DWD ''similarity_type'', URIRef u'))))))))))"

text \<open>
  One pass of the loop over the items of an \<open>ldc_arguments\<close> element (lines 127 to
  130): the loop variables are bound, then the three leaf names give an edge.
\<close>

definition ldc_arg_leaf :: "string \<Rightarrow> rdf_term \<Rightarrow> string \<times> json \<Rightarrow> unit action" where
  "ldc_arg_leaf DWD ldc_arg_node item =
     thenM (\<lambda>st. (Inr (), st\<lparr>ldc_arg_item := Some item\<rparr>))
       (if fst item \<in> set [''ldc_name'', ''ldc_argument_output_value'', ''dwd_arg_name'']
        then graph_add (ldc_arg_node, ns DWD ''ldc_code'', Literal (snd item))
        else skip)"

text \<open>
  Lines 131 to 133, after that loop: \<open>ldc_arg_name\<close> and \<open>ldc_arg_value\<close> are read
  as the loop left them (unbound when no pass has run yet in this call), and the
  body of the loop over \<open>ldc_arg_value\<close> evaluates the name \<open>graph\<close>, which the
  module does not define.
\<close>

definition ldc_contraints :: "string \<Rightarrow> rdf_term \<Rightarrow> unit action" where
  "ldc_contraints DWD ldc_arg_node =
     bindM (\<lambda>st. (case ldc_arg_item st of None \<Rightarrow> Inl UnboundLocalError | Some item \<Rightarrow> Inr item, st))
       (\<lambda>item.
          if fst item = ''ldc_contraints''
          then bindM (expr (py_iter (snd item)))
                 (for_each (\<lambda>ent_type. expr (Inl NameError)))
          else skip)"

text \<open>The body of the loop over \<open>ldc_arguments\<close> (lines 125 to 133).\<close>

definition ldc_argument :: "(nat \<Rightarrow> string) \<Rightarrow> string \<Rightarrow> rdf_term \<Rightarrow> json \<Rightarrow> unit action" where
  "ldc_argument gen DWD ldc_type_node ldc_arg =
     bindM (bnode gen ''LDCARG'') (\<lambda>ldc_arg_node.
     thenM (graph_add (ldc_type_node, ns DWD ''ldc_argument'', ldc_arg_node))
    (bindM (expr (py_items ldc_arg)) (\<lambda>items.
     thenM (for_each (ldc_arg_leaf DWD ldc_arg_node) items)
       (ldc_contraints DWD ldc_arg_node))))"

text \<open>One item of an \<open>ldc_types\<close> element (lines 116 to 135).\<close>

definition ldc_type_item ::
  "(nat \<Rightarrow> string) \<Rightarrow> string \<Rightarrow> rdf_term \<Rightarrow> string \<Rightarrow> rdf_term \<Rightarrow> string \<times> json \<Rightarrow> unit action" where
  "ldc_type_item gen DWD node property ldc_type_node item =
     (let vname = fst item; vvalue = snd item in
      if vname = ''name'' then graph_add (ldc_type_node, ns DWD ''name'', Literal vvalue)
      else if vname = ''ldc_code'' then graph_add (ldc_type_node, ns DWD ''ldc_code'', Literal vvalue)
      else if vname = ''other_pb_rolesets'' then
        bindM (expr (py_iter vvalue))
          (for_each (\<lambda>pb_roleset. graph_add (ldc_type_node, ns DWD ''other_pb_roleset'', Literal pb_roleset)))
      else if vname = ''ldc_arguments'' then
        bindM (expr (py_iter vvalue)) (for_each (ldc_argument gen DWD ldc_type_node))
      else print_notice [Txt ''Bad LDC_types property (unrecognized): '', Trm node, Txt '' '',
                         Txt property, Txt '' '', Txt vname])"

text \<open>The body of the loop over \<open>ldc_types\<close> (lines 113 to 135).\<close>

definition ldc_type :: "(nat \<Rightarrow> string) \<Rightarrow> string \<Rightarrow> rdf_term \<Rightarrow> string \<Rightarrow> json \<Rightarrow> unit action" where
  "ldc_type gen DWD node property v =
     bindM (bnode gen ''LDCTYPE'') (\<lambda>ldc_type_node.
     thenM (graph_add (node, ns DWD ''ldc_type'', ldc_type_node))
    (bindM (expr (py_items v))
       (for_each (ldc_type_item gen DWD node property ldc_type_node))))"

text \<open>The body of the loop over the constraints of an argument (lines 147 to 150).\<close>

definition arg_constraint :: "(nat \<Rightarrow> string) \<Rightarrow> string \<Rightarrow> rdf_term \<Rightarrow> json \<Rightarrow> unit action" where
  "arg_constraint gen DWD arg_node c =
     bindM (bnode gen ''CONSTRAINT'') (\<lambda>const_node.
     thenM (graph_add (arg_node, ns DWD ''constraint'', const_node))
    (bindM (expr (py_getitem c ''name'')) (\<lambda>n.
     thenM (graph_add (const_node, ns DWD ''name'', Literal n))
    (bindM (expr (py_getitem c ''wd_node'')) (\<lambda>w.
     bindM (expr (py_str_add WD w)) (\<lambda>u.
     graph_add (const_node, ns DWD ''wd_node'', URIRef u)))))))"

text \<open>\<open>if k in arg: GRAPH.add((arg_node, DWD.k, Literal(arg[k])))\<close> (lines 144, 145).\<close>

definition arg_optional :: "string \<Rightarrow> rdf_term \<Rightarrow> json \<Rightarrow> string \<Rightarrow> unit action" where
  "arg_optional DWD arg_node arg k =
     bindM (expr (py_contains k arg)) (\<lambda>present.
       if present
       then bindM (expr (py_getitem arg k)) (\<lambda>x. graph_add (arg_node, ns DWD k, Literal x))
       else skip)"

text \<open>The body of the loop over \<open>arguments\<close> (lines 142 to 150).\<close>

definition argument :: "(nat \<Rightarrow> string) \<Rightarrow> string \<Rightarrow> rdf_term \<Rightarrow> json \<Rightarrow> unit action" where
  "argument gen DWD node arg =
     bindM (bnode gen ''ARG'') (\<lambda>arg_node.
     thenM (graph_add (node, ns DWD ''argument'', arg_node))
    (thenM (arg_optional DWD arg_node arg ''name'')
    (thenM (arg_optional DWD arg_node arg ''short_name'')
    (bindM (expr (py_getitem arg ''constraints'')) (\<lambda>cs.
     bindM (expr (py_iter cs)) (for_each (arg_constraint gen DWD arg_node)))))))"

text \<open>The body of the loop over \<open>related_qnodes\<close> (lines 156 to 159).\<close>

definition related_qnode :: "(nat \<Rightarrow> string) \<Rightarrow> string \<Rightarrow> rdf_term \<Rightarrow> json \<Rightarrow> unit action" where
  "related_qnode gen DWD node v =
     bindM (bnode gen ''WDNODE'') (\<lambda>wdnode.
     thenM (graph_add (node, ns DWD ''related_qnode'', wdnode))
    (bindM (expr (py_getitem v ''wd_node'')) (\<lambda>w.
     bindM (expr (py_str_add WD w)) (\<lambda>u.
     thenM (graph_add (wdnode, ns DWD ''wd_node'', URIRef u))
    (bindM (expr (py_getitem v ''name'')) (\<lambda>n.
     graph_add (wdnode, ns DWD ''name'', Literal n)))))))"

text \<open>
  The dispatch on one property of a record (lines 83 to 174). \<open>val\<close> is the
  source's \<open>value\<close> and \<open>xtype\<close> its \<open>type\<close>.
\<close>

definition convert_property ::
  "(nat \<Rightarrow> string) \<Rightarrow> string \<Rightarrow> string \<Rightarrow> rdf_term \<Rightarrow> string \<Rightarrow> json \<Rightarrow> unit action" where
  "convert_property gen DWD xtype node property val =
     (if property \<in> set string_properties then
        graph_add (node, URIRef (DWD @ property), Literal val)
      else if property = ''overlay_parents'' then
        (if isinstance_list val
         then bindM (expr (py_iter val)) (for_each (overlay_parent gen DWD node))
         else print_notice [Txt ''Bad property-values '', Txt property, Txt '' '', Val val])
      else if property = ''similar_nodes'' then
        (if isinstance_list val
         then bindM (expr (py_iter val)) (for_each (similar_node gen DWD node))
         else print_notice [Txt ''Bad property-values '', Txt property, Txt '' '', Val val])
      else if property = ''ldc_types'' then
        (if isinstance_list val
         then bindM (expr (py_iter val)) (for_each (ldc_type gen DWD node property))
         else print_notice [Txt ''Bad property-values '', Txt property, Txt '' '', Val val,
                            Txt '' (not a list)''])
      else if property = ''arguments'' then
        (if isinstance_list val
         then bindM (expr (py_iter val)) (for_each (argument gen DWD node))
         else print_notice [Txt ''Bad property-values '', Trm node, Txt '' '', Txt property,
                            Txt '' '', Val val, Txt '' (not a list)''])
      else if property = ''related_qnodes'' then
        (if isinstance_list val
         then bindM (expr (py_iter val)) (for_each (related_qnode gen DWD node))
         else print_notice [Txt ''Bad property-values '', Trm node, Txt '' '', Txt property,
                            Txt '' '', Val val])
      else
        (if isinstance_list val
         then thenM (print_notice [Txt ''Unrecognized property with list of values for type '',
                                   Txt xtype, Txt '': '', Txt property, Txt '' '', Val val])
               (bindM (expr (py_iter val))
                  (for_each (\<lambda>v. graph_add (node, URIRef (DWD @ property), Literal v))))
         else thenM (print_notice [Txt ''Unrecognized property for '', Txt xtype, Txt '': '',
                                   Txt property, Txt '' '', Val val])
               (graph_add (node, URIRef (DWD @ property), Literal val))))"

text \<open>One record: lines 81 to 174.\<close>

definition convert_node ::
  "(nat \<Rightarrow> string) \<Rightarrow> string \<Rightarrow> string \<Rightarrow> string \<Rightarrow> json \<Rightarrow> unit action" where
  "convert_node gen DWD xtype node edges =
     bindM (expr (py_items edges))
       (for_each (\<lambda>item. convert_property gen DWD xtype (URIRef (DWD @ node)) (fst item) (snd item)))"

text \<open>
  The loop over the records (lines 77 to 80), with the counter and the \<open>break\<close>;
  it gives the value of \<open>count\<close> on leaving the loop.
\<close>

fun records_loop ::
  "(nat \<Rightarrow> string) \<Rightarrow> string \<Rightarrow> string \<Rightarrow> int \<Rightarrow> (string \<times> json) list \<Rightarrow> int \<Rightarrow> int action" where
  "records_loop gen DWD xtype stop [] count st = (Inr count, st)"
| "records_loop gen DWD xtype stop (item # rest) count st =
     (let count' = count + 1 in
      if stop > 0 \<and> count' > stop then (Inr count', st)
      else (case convert_node gen DWD xtype (fst item) (snd item) st of
              (Inl e, st') \<Rightarrow> (Inl e, st')
            | (Inr _, st') \<Rightarrow> records_loop gen DWD xtype stop rest count' st'))"

text \<open>
  \<open>convert_generic(data, DWD, type, stop)\<close>: the locals start unbound, \<open>count\<close>
  starts at 0, and the function returns \<open>count - 1\<close>. The state it leaves behind
  when it raises is the second component all the same: \<open>GRAPH\<close> is a module-level
  object.
\<close>

definition convert_generic ::
  "(nat \<Rightarrow> string) \<Rightarrow> json \<Rightarrow> string \<Rightarrow> string \<Rightarrow> int \<Rightarrow> int action" where
  "convert_generic gen data DWD xtype stop st =
     bindM (expr (py_items data)) (\<lambda>records.
     bindM (records_loop gen DWD xtype stop records 0) (\<lambda>count.
     expr (Inr (count - 1))))
     (st\<lparr>ldc_arg_item := None\<rparr>)"

text \<open>The state of a fresh run: an empty graph, nothing printed, no identifier drawn.\<close>

definition init :: state where
  "init = \<lparr>graph = [], stdout = [], uuid_calls = 0, ldc_arg_item = None\<rparr>"

text \<open>A sequence of five-character identifiers for the worked examples.\<close>

definition sample_uuid :: "nat \<Rightarrow> string" where
  "sample_uuid i = [''a1B2c'', ''d3E4f'', ''g5H6i'', ''j7K8m''] ! (i mod 4)"


text \<open>
  The five property names whose branch expects a list of nested records
  (lines 88, 98, 109, 138 and 153).
\<close>

definition list_properties :: "string list" where
  "list_properties =
     [''overlay_parents'', ''similar_nodes'', ''ldc_types'', ''arguments'', ''related_qnodes'']"

subsection \<open>Notions used in the properties\<close>

text \<open>
  An action never reads the sink: from every position \<open>k\<close> in the identifier
  sequence and every binding \<open>l\<close> of the locals, its result, the triples it adds,
  the lines it prints and the position and binding it leaves are the same whatever
  the graph and the output held before.
\<close>

definition sink_free :: "'a action \<Rightarrow> bool" where
  "sink_free m =
     (\<forall>k l. \<exists>r ts ns k' l'. \<forall>g out.
        m \<lparr>graph = g, stdout = out, uuid_calls = k, ldc_arg_item = l\<rparr> =
          (r, \<lparr>graph = g @ ts, stdout = out @ ns, uuid_calls = k', ldc_arg_item = l'\<rparr>))"

text \<open>The role tags that the code passes to \<open>bnode\<close>.\<close>

definition tags :: "string list" where
  "tags = [''OVERLAY'', ''SIMILAR'', ''LDCTYPE'', ''LDCARG'', ''ARG'', ''CONSTRAINT'', ''WDNODE'']"

text \<open>\<open>isinstance(t, BNode)\<close>.\<close>

fun is_bnode :: "rdf_term \<Rightarrow> bool" where
  "is_bnode (BNode b) = True"
| "is_bnode _ = False"

text \<open>The blank nodes that the first \<open>n\<close> identifiers can have given.\<close>

definition issued :: "(nat \<Rightarrow> string) \<Rightarrow> nat \<Rightarrow> rdf_term set" where
  "issued gen n = {BNode (p @ ''_'' @ gen i) | p i. p \<in> set tags \<and> i < n}"

text \<open>
  The invariant of the graph: every blank node in it was made from an identifier
  already drawn, a blank node that is the subject of a triple is the object of
  some triple, and no blank node is the object of two \<open>add\<close> calls.
\<close>

definition single_parent :: "(nat \<Rightarrow> string) \<Rightarrow> state \<Rightarrow> bool" where
  "single_parent gen st \<longleftrightarrow>
     (\<forall>t \<in> set (graph st).
        (is_bnode (t_subj t) \<longrightarrow> t_subj t \<in> issued gen (uuid_calls st)) \<and>
        (is_bnode (t_obj t) \<longrightarrow> t_obj t \<in> issued gen (uuid_calls st)) \<and>
        (is_bnode (t_subj t) \<longrightarrow> (\<exists>t' \<in> set (graph st). t_obj t' = t_subj t))) \<and>
     (\<forall>b. is_bnode b \<longrightarrow> length (filter (\<lambda>t. t_obj t = b) (graph st)) \<le> 1)"



section \<open>Properties\<close>

subsection \<open>Running single statements\<close>

lemmas run_defs =
  bindM_def thenM_def expr_def skip_def graph_add_def print_notice_def bnode_def ns_def

lemma for_each_graph_add:
  "for_each (\<lambda>v. graph_add (f v)) vs st = (Inr (), st\<lparr>graph := graph st @ map f vs\<rparr>)"
  by (induction vs arbitrary: st) (simp_all add: graph_add_def)

lemma isinstance_list_JList: "isinstance_list val \<Longrightarrow> \<exists>vs. val = JList vs"
  by (cases val) simp_all

lemma convert_property_string:
  "property \<in> set string_properties \<Longrightarrow>
   convert_property gen DWD xtype node property val st =
     (Inr (), st\<lparr>graph := graph st @ [(node, URIRef (DWD @ property), Literal val)]\<rparr>)"
  by (simp add: convert_property_def graph_add_def)

lemma convert_property_unrecognized_list:
  assumes "property \<notin> set string_properties" "property \<notin> set list_properties"
  shows "convert_property gen DWD xtype node property (JList vs) st =
     (Inr (), st\<lparr>graph := graph st @ map (\<lambda>v. (node, URIRef (DWD @ property), Literal v)) vs,
                 stdout := stdout st @
                   [[Txt ''Unrecognized property with list of values for type '',
                     Txt xtype, Txt '': '', Txt property, Txt '' '', Val (JList vs)]]\<rparr>)"
  using assms
  by (simp add: convert_property_def list_properties_def for_each_graph_add bindM_def
        thenM_def expr_def print_notice_def)

lemma convert_property_unrecognized_scalar:
  assumes "property \<notin> set string_properties" "property \<notin> set list_properties"
    and "\<not> isinstance_list val"
  shows "convert_property gen DWD xtype node property val st =
     (Inr (), st\<lparr>graph := graph st @ [(node, URIRef (DWD @ property), Literal val)],
                 stdout := stdout st @
                   [[Txt ''Unrecognized property for '', Txt xtype, Txt '': '',
                     Txt property, Txt '' '', Val val]]\<rparr>)"
  using assms
  by (simp add: convert_property_def list_properties_def bindM_def thenM_def expr_def
        print_notice_def graph_add_def)

lemma convert_property_empty_list:
  assumes "property \<in> set list_properties"
  shows "convert_property gen DWD xtype node property (JList []) st = (Inr (), st)"
  using assms
  by (auto simp add: convert_property_def list_properties_def string_properties_def
        bindM_def expr_def)

subsection \<open>The worked example of the overlay parents\<close>

text \<open>
  C4. For the single record \<open>{"name": "Attack", "overlay_parents": [{"wd_node":
  "Q123", "name": "Conflict"}]}\<close> under the key \<open>E1\<close>, \<open>convert_generic\<close>
  returns without an exception, prints nothing, draws one identifier and adds
  exactly four triples: \<open>(E1, name, "Attack")\<close>, \<open>(E1, overlay, b)\<close>,
  \<open>(b, overlay_parent, WD:Q123)\<close> and \<open>(b, overlay_parent_name, "Conflict")\<close>,
  where \<open>b\<close> is the blank node made from the tag \<open>OVERLAY\<close> and the identifier
  just drawn. This holds for every identifier sequence, namespace, category label
  and previous content of the graph.
\<close>

theorem example_overlay_parents:
  "convert_generic gen
     (JObj [(''E1'', JObj [(''name'', JStr ''Attack''),
                           (''overlay_parents'',
                            JList [JObj [(''wd_node'', JStr ''Q123''),
                                         (''name'', JStr ''Conflict'')]])])])
     DWD xtype 0 st =
   (Inr 0,
    st\<lparr>graph := graph st @
          [(URIRef (DWD @ ''E1''), URIRef (DWD @ ''name''), Literal (JStr ''Attack'')),
           (URIRef (DWD @ ''E1''), URIRef (DWD @ ''overlay''),
            BNode (''OVERLAY_'' @ gen (uuid_calls st))),
           (BNode (''OVERLAY_'' @ gen (uuid_calls st)), URIRef (DWD @ ''overlay_parent''),
            URIRef (WD @ ''Q123'')),
           (BNode (''OVERLAY_'' @ gen (uuid_calls st)), URIRef (DWD @ ''overlay_parent_name''),
            Literal (JStr ''Conflict''))],
       uuid_calls := Suc (uuid_calls st),
       ldc_arg_item := None\<rparr>)"
  by (simp add: convert_generic_def convert_node_def convert_property_def overlay_parent_def
        string_properties_def run_defs)

subsection \<open>Properties outside the vocabulary\<close>

text \<open>
  C6. A property whose name is none of those that lines 83 to 153 test for is
  handled by the last branch. When its value is a list, one edge with a literal
  object is added per element, in order; otherwise a single edge with the value
  as a literal. Either way exactly one line is printed, no exception is raised,
  and the loop over the record's properties goes on with the next property from
  the state so reached.
\<close>

theorem unrecognized_property_fallback:
  assumes "property \<notin> set string_properties" and "property \<notin> set list_properties"
  shows "convert_property gen DWD xtype node property (JList vs) st =
           (Inr (), st\<lparr>graph := graph st @ map (\<lambda>v. (node, URIRef (DWD @ property), Literal v)) vs,
                       stdout := stdout st @
                         [[Txt ''Unrecognized property with list of values for type '',
                           Txt xtype, Txt '': '', Txt property, Txt '' '', Val (JList vs)]]\<rparr>)
       \<and> (\<not> isinstance_list val \<longrightarrow>
            convert_property gen DWD xtype node property val st =
              (Inr (), st\<lparr>graph := graph st @ [(node, URIRef (DWD @ property), Literal val)],
                          stdout := stdout st @
                            [[Txt ''Unrecognized property for '', Txt xtype, Txt '': '',
                              Txt property, Txt '' '', Val val]]\<rparr>))
       \<and> for_each (\<lambda>item. convert_property gen DWD xtype node (fst item) (snd item))
            ((property, val) # rest) st =
          for_each (\<lambda>item. convert_property gen DWD xtype node (fst item) (snd item))
            rest (snd (convert_property gen DWD xtype node property val st))"
proof (intro conjI impI)
  show "convert_property gen DWD xtype node property (JList vs) st =
           (Inr (), st\<lparr>graph := graph st @ map (\<lambda>v. (node, URIRef (DWD @ property), Literal v)) vs,
                       stdout := stdout st @
                         [[Txt ''Unrecognized property with list of values for type '',
                           Txt xtype, Txt '': '', Txt property, Txt '' '', Val (JList vs)]]\<rparr>)"
    by (rule convert_property_unrecognized_list [OF assms])
next
  assume "\<not> isinstance_list val"
  then show "convert_property gen DWD xtype node property val st =
              (Inr (), st\<lparr>graph := graph st @ [(node, URIRef (DWD @ property), Literal val)],
                          stdout := stdout st @
                            [[Txt ''Unrecognized property for '', Txt xtype, Txt '': '',
                              Txt property, Txt '' '', Val val]]\<rparr>)"
    by (rule convert_property_unrecognized_scalar [OF assms])
next
  have "fst (convert_property gen DWD xtype node property val st) = Inr ()"
  proof (cases "isinstance_list val")
    case True
    then obtain ws where "val = JList ws" using isinstance_list_JList by blast
    then show ?thesis by (simp add: convert_property_unrecognized_list [OF assms])
  next
    case False
    then show ?thesis by (simp add: convert_property_unrecognized_scalar [OF assms])
  qed
  then show "for_each (\<lambda>item. convert_property gen DWD xtype node (fst item) (snd item))
            ((property, val) # rest) st =
          for_each (\<lambda>item. convert_property gen DWD xtype node (fst item) (snd item))
            rest (snd (convert_property gen DWD xtype node property val st))"
    by (cases "convert_property gen DWD xtype node property val st") simp
qed

theorem unrecognized_property_fallback_witness:
  "''foo'' \<notin> set string_properties \<and> ''foo'' \<notin> set list_properties
   \<and> \<not> isinstance_list (JStr ''bar'')
   \<and> convert_property sample_uuid XPO ''event'' (URIRef (XPO @ ''E3'')) ''foo'' (JStr ''bar'') init =
       (Inr (), init\<lparr>graph := [(URIRef (XPO @ ''E3''), URIRef (XPO @ ''foo''), Literal (JStr ''bar''))],
                    stdout := [[Txt ''Unrecognized property for '', Txt ''event'', Txt '': '',
                                Txt ''foo'', Txt '' '', Val (JStr ''bar'')]]\<rparr>)
   \<and> convert_property sample_uuid XPO ''event'' (URIRef (XPO @ ''E3'')) ''foo''
        (JList [JStr ''a'', JStr ''b'']) init =
       (Inr (), init\<lparr>graph := [(URIRef (XPO @ ''E3''), URIRef (XPO @ ''foo''), Literal (JStr ''a'')),
                              (URIRef (XPO @ ''E3''), URIRef (XPO @ ''foo''), Literal (JStr ''b''))],
                    stdout := [[Txt ''Unrecognized property with list of values for type '',
                                Txt ''event'', Txt '': '', Txt ''foo'', Txt '' '',
                                Val (JList [JStr ''a'', JStr ''b''])]]\<rparr>)"
proof -
  have h1: "''foo'' \<notin> set string_properties" by (simp add: string_properties_def)
  have h2: "''foo'' \<notin> set list_properties" by (simp add: list_properties_def)
  show ?thesis
    using h1 h2
      unrecognized_property_fallback [OF h1 h2, of sample_uuid XPO "''event''" "URIRef (XPO @ ''E3'')"
        "[JStr ''a'', JStr ''b'']" init "JStr ''bar''" "[]"]
    by (simp add: init_def)
qed

subsection \<open>Empty lists\<close>

text \<open>
  A property outside the vocabulary whose value is the empty list: line 166 prints
  before line 167 looks at the list, so one line is printed (and no triple added).
\<close>

theorem empty_list_unrecognized_counterexample:
  "stdout (snd (convert_generic sample_uuid (JObj [(''E3'', JObj [(''foo'', JList [])])])
                  XPO ''event'' 0 init)) =
     [[Txt ''Unrecognized property with list of values for type '', Txt ''event'', Txt '': '',
       Txt ''foo'', Txt '' '', Val (JList [])]]
   \<and> stdout init = []"
  by (simp add: convert_generic_def convert_node_def convert_property_def
        string_properties_def init_def run_defs)

text \<open>
  C7, as the code has it. For an empty list as the value of a property:
  under one of the five names that expect a list of records, nothing is added and
  nothing is printed; under a name outside the vocabulary, nothing is added and
  the one line of the last branch is printed; under one of the ten names of the
  first branch, the empty list itself becomes the literal of one edge, with
  nothing printed. No case raises an exception.
\<close>

theorem empty_list_property:
  "(property \<in> set list_properties \<longrightarrow>
      convert_property gen DWD xtype node property (JList []) st = (Inr (), st))
   \<and> (property \<notin> set string_properties \<and> property \<notin> set list_properties \<longrightarrow>
      convert_property gen DWD xtype node property (JList []) st =
        (Inr (), st\<lparr>stdout := stdout st @
                    [[Txt ''Unrecognized property with list of values for type '',
                      Txt xtype, Txt '': '', Txt property, Txt '' '', Val (JList [])]]\<rparr>))
   \<and> (property \<in> set string_properties \<longrightarrow>
      convert_property gen DWD xtype node property (JList []) st =
        (Inr (), st\<lparr>graph := graph st @ [(node, URIRef (DWD @ property), Literal (JList []))]\<rparr>))"
  using convert_property_empty_list [of property gen DWD xtype node st]
    convert_property_unrecognized_list [of property gen DWD xtype node "[]" st]
    convert_property_string [of property gen DWD xtype node "JList []" st]
  by simp

theorem empty_list_property_witness:
  "''overlay_parents'' \<in> set list_properties
   \<and> convert_property sample_uuid XPO ''event'' (URIRef (XPO @ ''E1'')) ''overlay_parents'' (JList []) init
       = (Inr (), init)
   \<and> ''foo'' \<notin> set string_properties \<and> ''foo'' \<notin> set list_properties
   \<and> convert_property sample_uuid XPO ''event'' (URIRef (XPO @ ''E1'')) ''foo'' (JList []) init
       = (Inr (), init\<lparr>stdout := [[Txt ''Unrecognized property with list of values for type '',
                      Txt ''event'', Txt '': '', Txt ''foo'', Txt '' '', Val (JList [])]]\<rparr>)
   \<and> ''name'' \<in> set string_properties
   \<and> convert_property sample_uuid XPO ''event'' (URIRef (XPO @ ''E1'')) ''name'' (JList []) init
       = (Inr (), init\<lparr>graph := [(URIRef (XPO @ ''E1''), URIRef (XPO @ ''name''), Literal (JList []))]\<rparr>)"
  using empty_list_property [of "''overlay_parents''" sample_uuid XPO "''event''" "URIRef (XPO @ ''E1'')" init]
    empty_list_property [of "''foo''" sample_uuid XPO "''event''" "URIRef (XPO @ ''E1'')" init]
    empty_list_property [of "''name''" sample_uuid XPO "''event''" "URIRef (XPO @ ''E1'')" init]
  by (simp add: list_properties_def string_properties_def init_def)

subsection \<open>Malformed values\<close>

text \<open>
  An element of \<open>overlay_parents\<close> without the key \<open>wd_node\<close>: line 94 reads
  \<open>v['wd_node']\<close> with no test before it, and the \<open>KeyError\<close> leaves
  \<open>convert_generic\<close>; the properties and records after it are not processed.
\<close>

theorem missing_subkey_counterexample:
  "fst (convert_generic sample_uuid
          (JObj [(''E1'', JObj [(''overlay_parents'', JList [JObj [(''name'', JStr ''Conflict'')]]),
                                (''name'', JStr ''Attack'')])])
          XPO ''event'' 0 init) = Inl KeyError"
  by (simp add: convert_generic_def convert_node_def convert_property_def overlay_parent_def
        string_properties_def init_def run_defs)

text \<open>
  C1, as the code has it. When the value of one of the five properties that expect
  a list of records (\<open>overlay_parents\<close>, \<open>similar_nodes\<close>, \<open>ldc_types\<close>,
  \<open>arguments\<close>, \<open>related_qnodes\<close>) is not a list, no exception is raised: exactly
  one line is printed, which names the property and the value, no triple is added,
  no identifier is drawn, and the loop over the record's properties goes on with
  the next property.
\<close>

theorem not_a_list_is_reported:
  assumes "property \<in> set list_properties" and "\<not> isinstance_list val"
  shows "\<exists>n. convert_property gen DWD xtype node property val st =
               (Inr (), st\<lparr>stdout := stdout st @ [n]\<rparr>)
           \<and> Txt property \<in> set n \<and> Val val \<in> set n
           \<and> for_each (\<lambda>item. convert_property gen DWD xtype node (fst item) (snd item))
                ((property, val) # rest) st =
              for_each (\<lambda>item. convert_property gen DWD xtype node (fst item) (snd item))
                rest (st\<lparr>stdout := stdout st @ [n]\<rparr>)"
proof -
  define n where "n =
    (if property = ''ldc_types'' then
       [Txt ''Bad property-values '', Txt property, Txt '' '', Val val, Txt '' (not a list)'']
     else if property = ''arguments'' then
       [Txt ''Bad property-values '', Trm node, Txt '' '', Txt property, Txt '' '', Val val,
        Txt '' (not a list)'']
     else if property = ''related_qnodes'' then
       [Txt ''Bad property-values '', Trm node, Txt '' '', Txt property, Txt '' '', Val val]
     else [Txt ''Bad property-values '', Txt property, Txt '' '', Val val])"
  have names: "property = ''overlay_parents'' \<or> property = ''similar_nodes''
      \<or> property = ''ldc_types'' \<or> property = ''arguments''
      \<or> property = ''related_qnodes''"
    using assms(1) by (simp add: list_properties_def)
  have eq: "convert_property gen DWD xtype node property val st =
      (Inr (), st\<lparr>stdout := stdout st @ [n]\<rparr>)"
    using names assms(2)
    by (elim disjE)
       (simp_all add: n_def convert_property_def string_properties_def print_notice_def)
  have mem: "Txt property \<in> set n \<and> Val val \<in> set n"
    by (simp add: n_def)
  have cont: "for_each (\<lambda>item. convert_property gen DWD xtype node (fst item) (snd item))
                ((property, val) # rest) st =
              for_each (\<lambda>item. convert_property gen DWD xtype node (fst item) (snd item))
                rest (st\<lparr>stdout := stdout st @ [n]\<rparr>)"
    by (simp add: eq)
  from eq mem cont show ?thesis by (intro exI [of _ n]) simp
qed

theorem not_a_list_is_reported_witness:
  "''similar_nodes'' \<in> set list_properties \<and> \<not> isinstance_list (JStr ''Q9'')
   \<and> fst (convert_property sample_uuid XPO ''event'' (URIRef (XPO @ ''E2''))
             ''similar_nodes'' (JStr ''Q9'') init) = Inr ()
   \<and> graph (snd (convert_property sample_uuid XPO ''event'' (URIRef (XPO @ ''E2''))
                    ''similar_nodes'' (JStr ''Q9'') init)) = []
   \<and> length (stdout (snd (convert_property sample_uuid XPO ''event'' (URIRef (XPO @ ''E2''))
                             ''similar_nodes'' (JStr ''Q9'') init))) = 1"
proof -
  have h1: "''similar_nodes'' \<in> set list_properties" by (simp add: list_properties_def)
  have h2: "\<not> isinstance_list (JStr ''Q9'')" by simp
  obtain n where "convert_property sample_uuid XPO ''event'' (URIRef (XPO @ ''E2''))
      ''similar_nodes'' (JStr ''Q9'') init = (Inr (), init\<lparr>stdout := stdout init @ [n]\<rparr>)"
    using not_a_list_is_reported [OF h1 h2, of sample_uuid XPO "''event''"
        "URIRef (XPO @ ''E2'')" init "[]"]
    by blast
  then show ?thesis using h1 h2 by (simp add: init_def)
qed

subsection \<open>Predicates\<close>

text \<open>
  The branch of \<open>overlay_parents\<close> names its predicates by fixed attributes of
  the namespace (\<open>DWD.overlay\<close>, \<open>DWD.overlay_parent\<close>,
  \<open>DWD.overlay_parent_name\<close>), none of which is the property's own name.
\<close>

theorem predicate_overlay_counterexample:
  "map t_pred (graph (snd (convert_generic sample_uuid
      (JObj [(''E1'', JObj [(''overlay_parents'',
                            JList [JObj [(''wd_node'', JStr ''Q123''),
                                         (''name'', JStr ''Conflict'')]])])])
      XPO ''event'' 0 init))) =
     [URIRef (XPO @ ''overlay''), URIRef (XPO @ ''overlay_parent''),
      URIRef (XPO @ ''overlay_parent_name'')]
   \<and> URIRef (XPO @ ''overlay'') \<noteq> URIRef (XPO @ ''overlay_parents'')
   \<and> URIRef (XPO @ ''overlay_parent'') \<noteq> URIRef (XPO @ ''overlay_parents'')
   \<and> URIRef (XPO @ ''overlay_parent_name'') \<noteq> URIRef (XPO @ ''overlay_parents'')"
  by (simp add: convert_generic_def convert_node_def convert_property_def overlay_parent_def
        string_properties_def init_def t_pred_def run_defs)

text \<open>
  C2, as the code has it. For a property of the first branch (the ten
  string-valued names) and for a property outside the vocabulary, every triple
  that \<open>convert_property\<close> adds has the record's node as its subject and, as
  its predicate, the identifier built from the namespace and the property's name.
\<close>

theorem predicate_named_after_property:
  assumes "property \<in> set string_properties \<or> property \<notin> set list_properties"
  shows "\<forall>t \<in> set (drop (length (graph st))
                    (graph (snd (convert_property gen DWD xtype node property val st)))).
           t_subj t = node \<and> t_pred t = URIRef (DWD @ property)"
proof (cases "property \<in> set string_properties")
  case True
  then show ?thesis
    by (simp add: convert_property_string t_subj_def t_pred_def)
next
  case False
  with assms have other: "property \<notin> set list_properties" by simp
  show ?thesis
  proof (cases "isinstance_list val")
    case True
    then obtain vs where "val = JList vs" using isinstance_list_JList by blast
    then show ?thesis
      by (auto simp add: convert_property_unrecognized_list [OF False other] t_subj_def t_pred_def)
  next
    case False
    then show ?thesis
      by (simp add: convert_property_unrecognized_scalar [OF \<open>property \<notin> set string_properties\<close> other]
            t_subj_def t_pred_def)
  qed
qed

theorem predicate_named_after_property_witness:
  "(''name'' \<in> set string_properties \<or> ''name'' \<notin> set list_properties)
   \<and> graph (snd (convert_property sample_uuid XPO ''event'' (URIRef (XPO @ ''E1''))
                    ''name'' (JStr ''Attack'') init)) =
       [(URIRef (XPO @ ''E1''), URIRef (XPO @ ''name''), Literal (JStr ''Attack''))]
   \<and> t_pred (URIRef (XPO @ ''E1''), URIRef (XPO @ ''name''), Literal (JStr ''Attack'')) =
       URIRef (XPO @ ''name'')"
proof -
  have h: "''name'' \<in> set string_properties \<or> ''name'' \<notin> set list_properties"
    by (simp add: string_properties_def)
  have g: "graph (snd (convert_property sample_uuid XPO ''event'' (URIRef (XPO @ ''E1''))
                    ''name'' (JStr ''Attack'') init)) =
       [(URIRef (XPO @ ''E1''), URIRef (XPO @ ''name''), Literal (JStr ''Attack''))]"
    by (simp add: convert_property_def string_properties_def graph_add_def init_def)
  have "\<forall>t \<in> set (drop (length (graph init))
                    (graph (snd (convert_property sample_uuid XPO ''event'' (URIRef (XPO @ ''E1''))
                       ''name'' (JStr ''Attack'') init)))).
           t_subj t = URIRef (XPO @ ''E1'') \<and> t_pred t = URIRef (XPO @ ''name'')"
    by (rule predicate_named_after_property [OF h])
  then have "t_pred (URIRef (XPO @ ''E1''), URIRef (XPO @ ''name''), Literal (JStr ''Attack'')) =
       URIRef (XPO @ ''name'')"
    unfolding g by (simp add: init_def)
  with h g show ?thesis by blast
qed

subsection \<open>The counter of records\<close>

lemma records_loop_no_stop:
  "stop \<le> 0 \<Longrightarrow>
   records_loop gen DWD xtype stop records c st =
     (case for_each (\<lambda>item. convert_node gen DWD xtype (fst item) (snd item)) records st of
        (Inl e, st') \<Rightarrow> (Inl e, st')
      | (Inr _, st') \<Rightarrow> (Inr (c + int (length records)), st'))"
proof (induction records arbitrary: c st)
  case Nil
  then show ?case by simp
next
  case (Cons item rest)
  show ?case
  proof (cases "convert_node gen DWD xtype (fst item) (snd item) st")
    case (Pair r st1)
    with Cons show ?thesis
      by (cases r) (simp_all add: Let_def split: prod.splits sum.splits)
  qed
qed

lemma records_loop_stop:
  "0 < stop \<Longrightarrow> c \<le> stop \<Longrightarrow> stop - c < int (length records) \<Longrightarrow>
   records_loop gen DWD xtype stop records c st =
     (case for_each (\<lambda>item. convert_node gen DWD xtype (fst item) (snd item))
             (take (nat (stop - c)) records) st of
        (Inl e, st') \<Rightarrow> (Inl e, st')
      | (Inr _, st') \<Rightarrow> (Inr (stop + 1), st'))"
proof (induction records arbitrary: c st)
  case Nil
  then show ?case by simp
next
  case (Cons item rest)
  show ?case
  proof (cases "c = stop")
    case True
    with Cons.prems show ?thesis by (simp add: Let_def)
  next
    case False
    with Cons.prems have lt: "c + 1 \<le> stop" by simp
    from Cons.prems have len: "stop - (c + 1) < int (length rest)" by simp
    from lt have "nat (stop - c) = Suc (nat (stop - (c + 1)))" by arith
    then have tk: "take (nat (stop - c)) (item # rest) = item # take (nat (stop - (c + 1))) rest"
      by simp
    show ?thesis
    proof (cases "convert_node gen DWD xtype (fst item) (snd item) st")
      case (Pair r st1)
      show ?thesis
      proof (cases r)
        case (Inl e)
        with Pair lt show ?thesis by (simp add: Let_def tk)
      next
        case (Inr u)
        with Pair lt Cons.IH [OF Cons.prems(1) lt len, of st1] show ?thesis
          by (simp add: Let_def tk)
      qed
    qed
  qed
qed


text \<open>
  C10. With \<open>stop = 0\<close> the loop body runs for every one of the \<open>n\<close> records
  (the run is that of the plain loop over all of them), and unless a record raises
  the value returned is \<open>n - 1\<close>. With \<open>stop = k > 0\<close> and more than \<open>k\<close>
  records the body runs for the first \<open>k\<close> records only, and unless one of
  them raises the value returned is \<open>k\<close>.
\<close>

theorem convert_generic_count:
  "convert_generic gen (JObj records) DWD xtype 0 st =
     (case for_each (\<lambda>item. convert_node gen DWD xtype (fst item) (snd item)) records
             (st\<lparr>ldc_arg_item := None\<rparr>) of
        (Inl e, st') \<Rightarrow> (Inl e, st')
      | (Inr _, st') \<Rightarrow> (Inr (int (length records) - 1), st'))
   \<and> (0 < k \<and> k < int (length records) \<longrightarrow>
        convert_generic gen (JObj records) DWD xtype k st =
          (case for_each (\<lambda>item. convert_node gen DWD xtype (fst item) (snd item))
                  (take (nat k) records) (st\<lparr>ldc_arg_item := None\<rparr>) of
             (Inl e, st') \<Rightarrow> (Inl e, st')
           | (Inr _, st') \<Rightarrow> (Inr k, st')))"
proof (intro conjI impI)
  show "convert_generic gen (JObj records) DWD xtype 0 st =
     (case for_each (\<lambda>item. convert_node gen DWD xtype (fst item) (snd item)) records
             (st\<lparr>ldc_arg_item := None\<rparr>) of
        (Inl e, st') \<Rightarrow> (Inl e, st')
      | (Inr _, st') \<Rightarrow> (Inr (int (length records) - 1), st'))"
    by (simp add: convert_generic_def bindM_def expr_def records_loop_no_stop
          split: prod.splits sum.splits)
next
  assume k: "0 < k \<and> k < int (length records)"
  then have "records_loop gen DWD xtype k records 0 (st\<lparr>ldc_arg_item := None\<rparr>) =
     (case for_each (\<lambda>item. convert_node gen DWD xtype (fst item) (snd item))
             (take (nat (k - 0)) records) (st\<lparr>ldc_arg_item := None\<rparr>) of
        (Inl e, st') \<Rightarrow> (Inl e, st')
      | (Inr _, st') \<Rightarrow> (Inr (k + 1), st'))"
    by (intro records_loop_stop) simp_all
  then show "convert_generic gen (JObj records) DWD xtype k st =
          (case for_each (\<lambda>item. convert_node gen DWD xtype (fst item) (snd item))
                  (take (nat k) records) (st\<lparr>ldc_arg_item := None\<rparr>) of
             (Inl e, st') \<Rightarrow> (Inl e, st')
           | (Inr _, st') \<Rightarrow> (Inr k, st'))"
    by (simp add: convert_generic_def bindM_def expr_def split: prod.splits sum.splits)
qed

theorem convert_generic_count_witness:
  "(0::int) < 1 \<and> (1::int) < int (length [(''A'', JObj [(''name'', JStr ''a'')]),
                                             (''B'', JObj [(''name'', JStr ''b'')])])
   \<and> convert_generic sample_uuid
         (JObj [(''A'', JObj [(''name'', JStr ''a'')]), (''B'', JObj [(''name'', JStr ''b'')])])
         XPO ''event'' 1 init =
       (Inr 1, init\<lparr>graph := [(URIRef (XPO @ ''A''), URIRef (XPO @ ''name''), Literal (JStr ''a''))]\<rparr>)
   \<and> convert_generic sample_uuid
         (JObj [(''A'', JObj [(''name'', JStr ''a'')]), (''B'', JObj [(''name'', JStr ''b'')])])
         XPO ''event'' 0 init =
       (Inr 1, init\<lparr>graph := [(URIRef (XPO @ ''A''), URIRef (XPO @ ''name''), Literal (JStr ''a'')),
                              (URIRef (XPO @ ''B''), URIRef (XPO @ ''name''), Literal (JStr ''b''))]\<rparr>)"
  using convert_generic_count [of sample_uuid
      "[(''A'', JObj [(''name'', JStr ''a'')]), (''B'', JObj [(''name'', JStr ''b'')])]"
      XPO "''event''" init 1]
  by (simp add: convert_node_def convert_property_def string_properties_def init_def run_defs)

subsection \<open>The constraint list of an \<open>ldc_arguments\<close> element\<close>

lemma for_each_Cons_Inr:
  "body x st = (Inr u, st') \<Longrightarrow> for_each body (x # xs) st = for_each body xs st'"
  by simp

lemma ldc_arg_leaf_step:
  "ldc_arg_leaf DWD b item st =
     (Inr (), st\<lparr>graph := graph st @
                    (if fst item \<in> set [''ldc_name'', ''ldc_argument_output_value'',
                                          ''dwd_arg_name'']
                     then [(b, URIRef (DWD @ ''ldc_code''), Literal (snd item))] else []),
                 ldc_arg_item := Some item\<rparr>)"
  by (simp add: ldc_arg_leaf_def run_defs)

lemma for_each_ldc_arg_leaf:
  "for_each (ldc_arg_leaf DWD b) items st =
     (Inr (), st\<lparr>graph := graph st @
                    map (\<lambda>item. (b, URIRef (DWD @ ''ldc_code''), Literal (snd item)))
                      (filter (\<lambda>item. fst item \<in> set [''ldc_name'', ''ldc_argument_output_value'',
                                                         ''dwd_arg_name'']) items),
                 ldc_arg_item := (if items = [] then ldc_arg_item st else Some (last items))\<rparr>)"
proof (induction items arbitrary: st)
  case Nil
  show ?case by simp
next
  case (Cons item rest)
  have "for_each (ldc_arg_leaf DWD b) (item # rest) st =
        for_each (ldc_arg_leaf DWD b) rest
          (st\<lparr>graph := graph st @
                    (if fst item \<in> set [''ldc_name'', ''ldc_argument_output_value'',
                                          ''dwd_arg_name'']
                     then [(b, URIRef (DWD @ ''ldc_code''), Literal (snd item))] else []),
              ldc_arg_item := Some item\<rparr>)"
    by (rule for_each_Cons_Inr) (rule ldc_arg_leaf_step)
  also have "\<dots> = (Inr (), st\<lparr>graph := graph st @
                    map (\<lambda>item. (b, URIRef (DWD @ ''ldc_code''), Literal (snd item)))
                      (filter (\<lambda>item. fst item \<in> set [''ldc_name'', ''ldc_argument_output_value'',
                                                         ''dwd_arg_name'']) (item # rest)),
                 ldc_arg_item := (if item # rest = [] then ldc_arg_item st
                                  else Some (last (item # rest)))\<rparr>)"
    unfolding Cons.IH by simp
  finally show ?case .
qed

lemma for_each_NameError:
  "for_each (\<lambda>ent_type. expr (Inl NameError)) xs st =
     (case xs of [] \<Rightarrow> (Inr (), st) | x # ys \<Rightarrow> (Inl NameError, st))"
  by (cases xs) (simp_all add: expr_def)

text \<open>
  The run of lines 125 to 133 on one \<open>ldc_arguments\<close> element that is a dict:
  one identifier is drawn, the \<open>ldc_argument\<close> edge and one \<open>ldc_code\<close> edge
  per leaf item are added, and the test of line 131 reads the key that the loop
  over the items bound last (for an empty element, the key left by an earlier
  element, if any).
\<close>

lemma ldc_argument_run:
  "ldc_argument gen DWD ldc_type_node (JObj items) st =
     (let ldc_arg_node = BNode (''LDCARG_'' @ gen (uuid_calls st));
          last_item = (if items = [] then ldc_arg_item st else Some (last items));
          st' = st\<lparr>graph := graph st @
                       (ldc_type_node, URIRef (DWD @ ''ldc_argument''), ldc_arg_node) #
                       map (\<lambda>item. (ldc_arg_node, URIRef (DWD @ ''ldc_code''), Literal (snd item)))
                         (filter (\<lambda>item. fst item \<in> set [''ldc_name'',
                                    ''ldc_argument_output_value'', ''dwd_arg_name'']) items),
                    uuid_calls := Suc (uuid_calls st),
                    ldc_arg_item := last_item\<rparr>
      in case last_item of
           None \<Rightarrow> (Inl UnboundLocalError, st')
         | Some item \<Rightarrow>
             if fst item = ''ldc_contraints''
             then (case py_iter (snd item) of
                     Inl e \<Rightarrow> (Inl e, st')
                   | Inr [] \<Rightarrow> (Inr (), st')
                   | Inr (ent_type # ents) \<Rightarrow> (Inl NameError, st'))
             else (Inr (), st'))"
  by (simp add: ldc_argument_def bindM_def thenM_def bnode_def graph_add_def ns_def expr_def
        skip_def for_each_ldc_arg_leaf ldc_contraints_def for_each_NameError Let_def
        split: option.splits sum.splits list.splits)

text \<open>
  C3. The branch of lines 131 to 133 is not dead. For the record \<open>E1\<close> whose one
  \<open>ldc_types\<close> element has the \<open>ldc_arguments\<close> element
  \<open>{"ldc_name": "x", "ldc_contraints": ["PER"]}\<close>, the key bound last is
  \<open>ldc_contraints\<close>, the test of line 131 holds, the loop over the list is entered
  and line 133 evaluates the name \<open>graph\<close>, which the module does not define
  (every other branch writes \<open>GRAPH\<close>): \<open>convert_generic\<close> ends in
  \<open>NameError\<close>, with the three triples added before it left in the graph and no
  \<open>ldc_constraint\<close> triple among them.
\<close>

theorem ldc_contraints_failing_input:
  "convert_generic sample_uuid
     (JObj [(''E1'', JObj [(''ldc_types'',
        JList [JObj [(''ldc_arguments'',
          JList [JObj [(''ldc_name'', JStr ''x''),
                       (''ldc_contraints'', JList [JStr ''PER''])]])]])])])
     XPO ''event'' 0 init =
   (Inl NameError,
    \<lparr>graph =
       [(URIRef (XPO @ ''E1''), URIRef (XPO @ ''ldc_type''), BNode ''LDCTYPE_a1B2c''),
        (BNode ''LDCTYPE_a1B2c'', URIRef (XPO @ ''ldc_argument''), BNode ''LDCARG_d3E4f''),
        (BNode ''LDCARG_d3E4f'', URIRef (XPO @ ''ldc_code''), Literal (JStr ''x''))],
     stdout = [], uuid_calls = 2,
     ldc_arg_item = Some (''ldc_contraints'', JList [JStr ''PER''])\<rparr>)"
  by (simp add: convert_generic_def convert_node_def convert_property_def ldc_type_def
        ldc_type_item_def ldc_argument_def ldc_arg_leaf_def ldc_contraints_def
        string_properties_def init_def sample_uuid_def run_defs)

subsection \<open>Similar nodes\<close>

lemma similar_node_step:
  assumes "py_getitem v ''wd_node'' = Inr (JStr w)" and "py_getitem v ''name'' = Inr n"
    and "py_getitem v ''similarity_type'' = Inr (JStr s)"
  shows "similar_node gen DWD node v st =
     (Inr (), st\<lparr>graph := graph st @
                 [(node, URIRef (DWD @ ''similarNode''), BNode (''SIMILAR_'' @ gen (uuid_calls st))),
                  (BNode (''SIMILAR_'' @ gen (uuid_calls st)), URIRef (DWD @ ''wd_node''), URIRef (WD @ w)),
                  (BNode (''SIMILAR_'' @ gen (uuid_calls st)), URIRef (DWD @ ''name''), Literal n),
                  (BNode (''SIMILAR_'' @ gen (uuid_calls st)), URIRef (DWD @ ''similarity_type''),
                   URIRef (DWD @ s))],
                 uuid_calls := Suc (uuid_calls st)\<rparr>)"
  using assms by (simp add: similar_node_def run_defs)

lemma for_each_similar_node:
  assumes "list_all2 (\<lambda>v e. py_getitem v ''wd_node'' = Inr (JStr (fst e))
                           \<and> py_getitem v ''name'' = Inr (fst (snd e))
                           \<and> py_getitem v ''similarity_type'' = Inr (JStr (snd (snd e)))) vs es"
  shows "for_each (similar_node gen DWD node) vs st =
     (Inr (), st\<lparr>graph := graph st @ concat (map
                   (\<lambda>(i, w, n, s).
                      [(node, URIRef (DWD @ ''similarNode''), BNode (''SIMILAR_'' @ gen i)),
                       (BNode (''SIMILAR_'' @ gen i), URIRef (DWD @ ''wd_node''), URIRef (WD @ w)),
                       (BNode (''SIMILAR_'' @ gen i), URIRef (DWD @ ''name''), Literal n),
                       (BNode (''SIMILAR_'' @ gen i), URIRef (DWD @ ''similarity_type''),
                        URIRef (DWD @ s))])
                   (zip [uuid_calls st ..< uuid_calls st + length vs] es)),
                 uuid_calls := uuid_calls st + length vs\<rparr>)"
  using assms
proof (induction vs es arbitrary: st rule: list_all2_induct)
  case Nil
  show ?case by simp
next
  case (Cons v vs e es)
  obtain w n s where e: "e = (w, n, s)" by (cases e) auto
  have step: "for_each (similar_node gen DWD node) (v # vs) st =
      for_each (similar_node gen DWD node) vs
        (st\<lparr>graph := graph st @
                 [(node, URIRef (DWD @ ''similarNode''), BNode (''SIMILAR_'' @ gen (uuid_calls st))),
                  (BNode (''SIMILAR_'' @ gen (uuid_calls st)), URIRef (DWD @ ''wd_node''), URIRef (WD @ w)),
                  (BNode (''SIMILAR_'' @ gen (uuid_calls st)), URIRef (DWD @ ''name''), Literal n),
                  (BNode (''SIMILAR_'' @ gen (uuid_calls st)), URIRef (DWD @ ''similarity_type''),
                   URIRef (DWD @ s))],
                 uuid_calls := Suc (uuid_calls st)\<rparr>)"
    using Cons.hyps(1) e by (intro for_each_Cons_Inr) (simp add: similar_node_step)
  have upt: "[uuid_calls st ..< uuid_calls st + length (v # vs)] =
      uuid_calls st # [Suc (uuid_calls st) ..< Suc (uuid_calls st) + length vs]"
    by (subst upt_rec) simp
  show ?case
    unfolding step Cons.IH upt by (simp add: e)
qed


text \<open>
  C5. Let every element \<open>v\<close> of a \<open>similar_nodes\<close> list carry a string under
  \<open>wd_node\<close>, a value under \<open>name\<close> and a string under \<open>similarity_type\<close>
  (the list \<open>es\<close> names them, element by element). Then \<open>convert_generic\<close>'s
  branch raises no exception, prints nothing and, for each element in turn, draws
  one new identifier, makes the blank node \<open>SIMILAR_\<close>\<open>id\<close>, links the record's
  node to it and gives it exactly three outgoing edges: \<open>wd_node\<close> to the
  identifier reference \<open>WD + wd_node\<close>, \<open>name\<close> to the literal of the name, and
  \<open>similarity_type\<close> to the identifier reference \<open>DWD + similarity_type\<close>, a
  \<open>URIRef\<close> and not a literal.
\<close>

theorem similar_nodes_edges:
  assumes "list_all2 (\<lambda>v e. py_getitem v ''wd_node'' = Inr (JStr (fst e))
                           \<and> py_getitem v ''name'' = Inr (fst (snd e))
                           \<and> py_getitem v ''similarity_type'' = Inr (JStr (snd (snd e)))) vs es"
  shows "convert_property gen DWD xtype node ''similar_nodes'' (JList vs) st =
     (Inr (), st\<lparr>graph := graph st @ concat (map
                   (\<lambda>(i, w, n, s).
                      [(node, URIRef (DWD @ ''similarNode''), BNode (''SIMILAR_'' @ gen i)),
                       (BNode (''SIMILAR_'' @ gen i), URIRef (DWD @ ''wd_node''), URIRef (WD @ w)),
                       (BNode (''SIMILAR_'' @ gen i), URIRef (DWD @ ''name''), Literal n),
                       (BNode (''SIMILAR_'' @ gen i), URIRef (DWD @ ''similarity_type''),
                        URIRef (DWD @ s))])
                   (zip [uuid_calls st ..< uuid_calls st + length vs] es)),
                 uuid_calls := uuid_calls st + length vs\<rparr>)"
  by (simp add: convert_property_def string_properties_def bindM_def expr_def
        for_each_similar_node [OF assms])

theorem similar_nodes_edges_witness:
  "convert_property sample_uuid XPO ''event'' (URIRef (XPO @ ''E2'')) ''similar_nodes''
     (JList [JObj [(''wd_node'', JStr ''Q9''), (''name'', JStr ''X''),
                   (''similarity_type'', JStr ''exact'')]]) init =
   (Inr (), init\<lparr>graph :=
              [(URIRef (XPO @ ''E2''), URIRef (XPO @ ''similarNode''), BNode ''SIMILAR_a1B2c''),
               (BNode ''SIMILAR_a1B2c'', URIRef (XPO @ ''wd_node''), URIRef (WD @ ''Q9'')),
               (BNode ''SIMILAR_a1B2c'', URIRef (XPO @ ''name''), Literal (JStr ''X'')),
               (BNode ''SIMILAR_a1B2c'', URIRef (XPO @ ''similarity_type''),
                URIRef (XPO @ ''exact''))],
            uuid_calls := 1\<rparr>)"
proof -
  have h: "list_all2 (\<lambda>v e. py_getitem v ''wd_node'' = Inr (JStr (fst e))
                           \<and> py_getitem v ''name'' = Inr (fst (snd e))
                           \<and> py_getitem v ''similarity_type'' = Inr (JStr (snd (snd e))))
             [JObj [(''wd_node'', JStr ''Q9''), (''name'', JStr ''X''),
                    (''similarity_type'', JStr ''exact'')]]
             [(''Q9'', JStr ''X'', ''exact'')]"
    by simp
  show ?thesis
    using similar_nodes_edges [OF h, of sample_uuid XPO "''event''" "URIRef (XPO @ ''E2'')" init]
    by (simp add: init_def sample_uuid_def)
qed

subsection \<open>Determinism\<close>

lemma sink_freeI:
  assumes "\<And>k l. \<exists>r ts ns k' l'. \<forall>g out.
        m \<lparr>graph = g, stdout = out, uuid_calls = k, ldc_arg_item = l\<rparr> =
          (r, \<lparr>graph = g @ ts, stdout = out @ ns, uuid_calls = k', ldc_arg_item = l'\<rparr>)"
  shows "sink_free m"
  using assms unfolding sink_free_def by blast

lemma sink_freeD:
  assumes "sink_free m"
  shows "\<exists>r ts ns k' l'. \<forall>g out.
        m \<lparr>graph = g, stdout = out, uuid_calls = k, ldc_arg_item = l\<rparr> =
          (r, \<lparr>graph = g @ ts, stdout = out @ ns, uuid_calls = k', ldc_arg_item = l'\<rparr>)"
  using assms unfolding sink_free_def by blast

lemma sink_free_expr: "sink_free (expr r)"
proof (rule sink_freeI)
  fix k l
  have "\<forall>g out. expr r \<lparr>graph = g, stdout = out, uuid_calls = k, ldc_arg_item = l\<rparr> =
          (r, \<lparr>graph = g @ [], stdout = out @ [], uuid_calls = k, ldc_arg_item = l\<rparr>)"
    by (simp add: expr_def)
  then show "\<exists>r' ts ns k' l'. \<forall>g out.
        expr r \<lparr>graph = g, stdout = out, uuid_calls = k, ldc_arg_item = l\<rparr> =
          (r', \<lparr>graph = g @ ts, stdout = out @ ns, uuid_calls = k', ldc_arg_item = l'\<rparr>)"
    by blast
qed

lemma sink_free_skip: "sink_free skip"
  unfolding skip_def by (rule sink_free_expr)

lemma sink_free_graph_add: "sink_free (graph_add t)"
proof (rule sink_freeI)
  fix k l
  have "\<forall>g out. graph_add t \<lparr>graph = g, stdout = out, uuid_calls = k, ldc_arg_item = l\<rparr> =
          (Inr (), \<lparr>graph = g @ [t], stdout = out @ [], uuid_calls = k, ldc_arg_item = l\<rparr>)"
    by (simp add: graph_add_def)
  then show "\<exists>r' ts ns k' l'. \<forall>g out.
        graph_add t \<lparr>graph = g, stdout = out, uuid_calls = k, ldc_arg_item = l\<rparr> =
          (r', \<lparr>graph = g @ ts, stdout = out @ ns, uuid_calls = k', ldc_arg_item = l'\<rparr>)"
    by blast
qed

lemma sink_free_print_notice: "sink_free (print_notice n)"
proof (rule sink_freeI)
  fix k l
  have "\<forall>g out. print_notice n \<lparr>graph = g, stdout = out, uuid_calls = k, ldc_arg_item = l\<rparr> =
          (Inr (), \<lparr>graph = g @ [], stdout = out @ [n], uuid_calls = k, ldc_arg_item = l\<rparr>)"
    by (simp add: print_notice_def)
  then show "\<exists>r' ts ns k' l'. \<forall>g out.
        print_notice n \<lparr>graph = g, stdout = out, uuid_calls = k, ldc_arg_item = l\<rparr> =
          (r', \<lparr>graph = g @ ts, stdout = out @ ns, uuid_calls = k', ldc_arg_item = l'\<rparr>)"
    by blast
qed

lemma sink_free_bnode: "sink_free (bnode gen pfx)"
proof (rule sink_freeI)
  fix k l
  have "\<forall>g out. bnode gen pfx \<lparr>graph = g, stdout = out, uuid_calls = k, ldc_arg_item = l\<rparr> =
          (Inr (if pfx \<noteq> [] then BNode (pfx @ ''_'' @ gen k) else BNode (gen k)),
           \<lparr>graph = g @ [], stdout = out @ [], uuid_calls = Suc k, ldc_arg_item = l\<rparr>)"
    by (simp add: bnode_def)
  then show "\<exists>r' ts ns k' l'. \<forall>g out.
        bnode gen pfx \<lparr>graph = g, stdout = out, uuid_calls = k, ldc_arg_item = l\<rparr> =
          (r', \<lparr>graph = g @ ts, stdout = out @ ns, uuid_calls = k', ldc_arg_item = l'\<rparr>)"
    by blast
qed

lemma sink_free_bindM:
  assumes m: "sink_free m" and f: "\<And>x. sink_free (f x)"
  shows "sink_free (bindM m f)"
proof (rule sink_freeI)
  fix k l
  from sink_freeD [OF m, of k l] obtain r ts ns k1 l1 where M: "\<And>g out.
        m \<lparr>graph = g, stdout = out, uuid_calls = k, ldc_arg_item = l\<rparr> =
          (r, \<lparr>graph = g @ ts, stdout = out @ ns, uuid_calls = k1, ldc_arg_item = l1\<rparr>)"
    by blast
  show "\<exists>r' ts' ns' k' l'. \<forall>g out.
        bindM m f \<lparr>graph = g, stdout = out, uuid_calls = k, ldc_arg_item = l\<rparr> =
          (r', \<lparr>graph = g @ ts', stdout = out @ ns', uuid_calls = k', ldc_arg_item = l'\<rparr>)"
  proof (cases r)
    case (Inl e)
    then have "\<forall>g out. bindM m f \<lparr>graph = g, stdout = out, uuid_calls = k, ldc_arg_item = l\<rparr> =
          (Inl e, \<lparr>graph = g @ ts, stdout = out @ ns, uuid_calls = k1, ldc_arg_item = l1\<rparr>)"
      by (simp add: bindM_def M)
    then show ?thesis by blast
  next
    case (Inr x)
    from sink_freeD [OF f [of x], of k1 l1] obtain r2 ts2 ns2 k2 l2 where F: "\<And>g out.
        f x \<lparr>graph = g, stdout = out, uuid_calls = k1, ldc_arg_item = l1\<rparr> =
          (r2, \<lparr>graph = g @ ts2, stdout = out @ ns2, uuid_calls = k2, ldc_arg_item = l2\<rparr>)"
      by blast
    from Inr have "\<forall>g out. bindM m f \<lparr>graph = g, stdout = out, uuid_calls = k, ldc_arg_item = l\<rparr> =
          (r2, \<lparr>graph = g @ (ts @ ts2), stdout = out @ (ns @ ns2), uuid_calls = k2, ldc_arg_item = l2\<rparr>)"
      by (simp add: bindM_def M F)
    then show ?thesis by blast
  qed
qed

lemma sink_free_thenM: "sink_free m \<Longrightarrow> sink_free k \<Longrightarrow> sink_free (thenM m k)"
  unfolding thenM_def by (rule sink_free_bindM)


lemma sink_free_for_each:
  assumes "\<And>x. sink_free (body x)"
  shows "sink_free (for_each body xs)"
proof (induction xs)
  case Nil
  have "for_each body [] = expr (Inr ())"
    by (rule ext) (simp add: expr_def)
  then show ?case by (simp add: sink_free_expr)
next
  case (Cons x xs)
  have "for_each body (x # xs) = bindM (body x) (\<lambda>_. for_each body xs)"
    by (rule ext) (simp add: bindM_def split: prod.splits sum.splits)
  then show ?case
    using assms Cons.IH by (simp add: sink_free_bindM)
qed

lemma sink_free_if:
  "sink_free a \<Longrightarrow> sink_free b \<Longrightarrow> sink_free (if c then a else b)"
  by simp

lemma sink_free_assign: "sink_free (\<lambda>st. (Inr (), st\<lparr>ldc_arg_item := Some item\<rparr>))"
proof (rule sink_freeI)
  fix k l
  have "\<forall>g out. (\<lambda>st. (Inr (), st\<lparr>ldc_arg_item := Some item\<rparr>))
            \<lparr>graph = g, stdout = out, uuid_calls = k, ldc_arg_item = l\<rparr> =
          (Inr (), \<lparr>graph = g @ [], stdout = out @ [], uuid_calls = k, ldc_arg_item = Some item\<rparr>)"
    by simp
  then show "\<exists>r' ts ns k' l'. \<forall>g out.
        (\<lambda>st. (Inr (), st\<lparr>ldc_arg_item := Some item\<rparr>))
            \<lparr>graph = g, stdout = out, uuid_calls = k, ldc_arg_item = l\<rparr> =
          (r', \<lparr>graph = g @ ts, stdout = out @ ns, uuid_calls = k', ldc_arg_item = l'\<rparr>)"
    by blast
qed

lemma sink_free_read:
  "sink_free (\<lambda>st. (case ldc_arg_item st of None \<Rightarrow> Inl UnboundLocalError
                                           | Some item \<Rightarrow> Inr item, st))"
proof (rule sink_freeI)
  fix k l
  have "\<forall>g out. (\<lambda>st. (case ldc_arg_item st of None \<Rightarrow> Inl UnboundLocalError
                                           | Some item \<Rightarrow> Inr item, st))
            \<lparr>graph = g, stdout = out, uuid_calls = k, ldc_arg_item = l\<rparr> =
          (case l of None \<Rightarrow> Inl UnboundLocalError | Some item \<Rightarrow> Inr item,
           \<lparr>graph = g @ [], stdout = out @ [], uuid_calls = k, ldc_arg_item = l\<rparr>)"
    by simp
  then show "\<exists>r' ts ns k' l'. \<forall>g out.
        (\<lambda>st. (case ldc_arg_item st of None \<Rightarrow> Inl UnboundLocalError
                                           | Some item \<Rightarrow> Inr item, st))
            \<lparr>graph = g, stdout = out, uuid_calls = k, ldc_arg_item = l\<rparr> =
          (r', \<lparr>graph = g @ ts, stdout = out @ ns, uuid_calls = k', ldc_arg_item = l'\<rparr>)"
    by blast
qed

lemmas sink_free_intros =
  sink_free_bindM sink_free_thenM sink_free_for_each sink_free_if sink_free_expr sink_free_skip
  sink_free_graph_add sink_free_print_notice sink_free_bnode sink_free_assign sink_free_read

lemma sink_free_overlay_parent: "sink_free (overlay_parent gen DWD node v)"
  unfolding overlay_parent_def by (intro sink_free_intros)

lemma sink_free_similar_node: "sink_free (similar_node gen DWD node v)"
  unfolding similar_node_def by (intro sink_free_intros)

lemma sink_free_related_qnode: "sink_free (related_qnode gen DWD node v)"
  unfolding related_qnode_def by (intro sink_free_intros)

lemma sink_free_arg_constraint: "sink_free (arg_constraint gen DWD arg_node c)"
  unfolding arg_constraint_def by (intro sink_free_intros)

lemma sink_free_argument: "sink_free (argument gen DWD node arg)"
  unfolding argument_def arg_optional_def
  by (intro sink_free_intros sink_free_arg_constraint)

lemma sink_free_ldc_argument: "sink_free (ldc_argument gen DWD ldc_type_node ldc_arg)"
  unfolding ldc_argument_def ldc_arg_leaf_def ldc_contraints_def
  by (intro sink_free_intros)

lemma sink_free_ldc_type: "sink_free (ldc_type gen DWD node property v)"
  unfolding ldc_type_def ldc_type_item_def Let_def
  by (intro sink_free_intros sink_free_ldc_argument)

lemma sink_free_convert_property:
  "sink_free (convert_property gen DWD xtype node property val)"
  unfolding convert_property_def
  by (intro sink_free_intros sink_free_overlay_parent sink_free_similar_node
        sink_free_related_qnode sink_free_argument sink_free_ldc_type)

lemma sink_free_convert_node: "sink_free (convert_node gen DWD xtype node edges)"
  unfolding convert_node_def
  by (intro sink_free_intros sink_free_convert_property)


lemma sink_free_records_loop: "sink_free (records_loop gen DWD xtype stop records c)"
proof (induction records arbitrary: c)
  case Nil
  have "records_loop gen DWD xtype stop [] c = expr (Inr c)"
    by (rule ext) (simp add: expr_def)
  then show ?case by (simp add: sink_free_expr)
next
  case (Cons item rest)
  have "records_loop gen DWD xtype stop (item # rest) c =
      (if stop > 0 \<and> c + 1 > stop then expr (Inr (c + 1))
       else bindM (convert_node gen DWD xtype (fst item) (snd item))
              (\<lambda>_. records_loop gen DWD xtype stop rest (c + 1)))"
    by (rule ext) (simp add: Let_def bindM_def expr_def split: prod.splits sum.splits)
  then show ?case
    using Cons.IH by (simp add: sink_free_bindM sink_free_convert_node sink_free_expr)
qed

lemma convert_generic_sink_free:
  "\<exists>r ts ns k' l'. \<forall>g out l.
     convert_generic gen data DWD xtype stop
       \<lparr>graph = g, stdout = out, uuid_calls = k, ldc_arg_item = l\<rparr> =
     (r, \<lparr>graph = g @ ts, stdout = out @ ns, uuid_calls = k', ldc_arg_item = l'\<rparr>)"
proof -
  let ?body = "bindM (expr (py_items data)) (\<lambda>records.
     bindM (records_loop gen DWD xtype stop records 0) (\<lambda>count.
     expr (Inr (count - 1))))"
  have "sink_free ?body"
    by (intro sink_free_intros sink_free_records_loop)
  from sink_freeD [OF this, of k None] obtain r ts ns k' l' where B: "\<And>g out.
      ?body \<lparr>graph = g, stdout = out, uuid_calls = k, ldc_arg_item = None\<rparr> =
        (r, \<lparr>graph = g @ ts, stdout = out @ ns, uuid_calls = k', ldc_arg_item = l'\<rparr>)"
    by blast
  have "\<forall>g out l. convert_generic gen data DWD xtype stop
       \<lparr>graph = g, stdout = out, uuid_calls = k, ldc_arg_item = l\<rparr> =
     (r, \<lparr>graph = g @ ts, stdout = out @ ns, uuid_calls = k', ldc_arg_item = l'\<rparr>)"
    by (simp add: convert_generic_def B)
  then show ?thesis by blast
qed

text \<open>
  C8. For a given identifier sequence \<open>gen\<close>, position \<open>k\<close> in it, input and
  parameters, the result of \<open>convert_generic\<close>, the triples it adds and the lines
  it prints are determined: they are the same for every previous content of the
  graph and of the output and every stale binding of the locals. In particular a
  second run on the same input, on the graph left by the first run and with the
  identifier sequence started again at the same position, leaves the triple set as
  the first run left it.
\<close>

theorem convert_generic_deterministic:
  "(\<exists>r ts ns k' l'. \<forall>g out l.
      convert_generic gen data DWD xtype stop
        \<lparr>graph = g, stdout = out, uuid_calls = k, ldc_arg_item = l\<rparr> =
      (r, \<lparr>graph = g @ ts, stdout = out @ ns, uuid_calls = k', ldc_arg_item = l'\<rparr>))
   \<and> set (graph (snd (convert_generic gen data DWD xtype stop
                 ((snd (convert_generic gen data DWD xtype stop st))\<lparr>uuid_calls := uuid_calls st\<rparr>)))) =
     set (graph (snd (convert_generic gen data DWD xtype stop st)))"
proof
  show "\<exists>r ts ns k' l'. \<forall>g out l.
      convert_generic gen data DWD xtype stop
        \<lparr>graph = g, stdout = out, uuid_calls = k, ldc_arg_item = l\<rparr> =
      (r, \<lparr>graph = g @ ts, stdout = out @ ns, uuid_calls = k', ldc_arg_item = l'\<rparr>)"
    by (rule convert_generic_sink_free)
next
  obtain g0 o0 k0 l0 where st: "st = \<lparr>graph = g0, stdout = o0, uuid_calls = k0, ldc_arg_item = l0\<rparr>"
    by (cases st) simp
  from convert_generic_sink_free [of gen data DWD xtype stop k0]
  obtain r ts ns k' l' where R: "\<And>g out l.
      convert_generic gen data DWD xtype stop
        \<lparr>graph = g, stdout = out, uuid_calls = k0, ldc_arg_item = l\<rparr> =
      (r, \<lparr>graph = g @ ts, stdout = out @ ns, uuid_calls = k', ldc_arg_item = l'\<rparr>)"
    by blast
  show "set (graph (snd (convert_generic gen data DWD xtype stop
                 ((snd (convert_generic gen data DWD xtype stop st))\<lparr>uuid_calls := uuid_calls st\<rparr>)))) =
     set (graph (snd (convert_generic gen data DWD xtype stop st)))"
    by (auto simp add: st R)
qed

subsection \<open>Synthetic nodes have one parent\<close>








lemma single_parent_stdout [simp]:
  "single_parent gen (st\<lparr>stdout := out\<rparr>) = single_parent gen st"
  by (simp add: single_parent_def)

lemma single_parent_ldc_arg_item [simp]:
  "single_parent gen (st\<lparr>ldc_arg_item := l\<rparr>) = single_parent gen st"
  by (simp add: single_parent_def)
































end
